theory Spec2Isabelle
  imports Complex_Main
begin

section \<open>Data model\<close>

text \<open>
  Population shares are float64 numbers in the source.  A float64 value is
  modelled as the real number it denotes.  Where the value of an arithmetic
  expression matters (the initial condition of the simulator), every operation
  is followed by the rounding of float64; elsewhere the operations are written
  as the exact ones, and what is proved about them is which operations are
  applied to which operands, not how their results round.

  A one-dimensional numpy array is a list of reals.  A two-dimensional array is
  the list of its rows, except for a trajectory (shape \<open>(8, n)\<close> in the source,
  one column per time step), which is kept as the list of its \<open>n\<close> columns: the
  source only ever reads and writes whole columns of it.
\<close>

type_synonym vec = "real list"
type_synonym matrix = "real list list"
type_synonym trajectory = "vec list"
type_synonym params = "string \<rightharpoonup> real"

text \<open>
  The exceptions of Python and numpy that the modelled code can raise, followed by
  the error conditions that only the specification names.
\<close>

datatype error =
    ValueError
  | IndexError
  | KeyError
  | AttributeError
  | TypeError
  | DomainError
  | PreconditionError
  | NonConvergence

section \<open>package/simulators.py\<close>

text \<open>
  The \<open>families\<close> module is not part of the sources at hand.  A family is
  therefore the pair of things the simulator reads from it: the parameter
  dictionary and the compiled equation of motion \<open>_numeric_system\<close>, which takes
  the male shares, the female shares and the parameters and returns a
  two-dimensional array.
\<close>

record family =
  fam_params :: params
  numeric_system :: "vec \<Rightarrow> vec \<Rightarrow> params \<Rightarrow> matrix"

record simulator =
  sim_family :: family
  stored_initial_condition :: "vec option"

text \<open>\<open>Simulator.F\<close>: \<open>out.ravel()\<close> flattens the array row by row.\<close>

definition ravel :: "matrix \<Rightarrow> vec" where
  "ravel out = concat out"

definition Simulator_F :: "simulator \<Rightarrow> vec \<Rightarrow> vec" where
  "Simulator_F self X =
     (let out = numeric_system (sim_family self) (take 4 X) (drop 4 X)
                  (fam_params (sim_family self))
      in ravel out)"

text \<open>Dictionary subscription raises \<open>KeyError\<close> on a missing key.\<close>

definition getitem :: "params \<Rightarrow> string \<Rightarrow> error + real" where
  "getitem d k = (case d k of None \<Rightarrow> Inl KeyError | Some v \<Rightarrow> Inr v)"

subsection \<open>float64 arithmetic\<close>

text \<open>\<open>pow2 e\<close> is \<open>2\<close> to the power \<open>e\<close>, for an integer \<open>e\<close> of either sign.\<close>

definition pow2 :: "int \<Rightarrow> real" where
  "pow2 e = (if 0 \<le> e then 2 ^ nat e else 1 / 2 ^ nat (- e))"

text \<open>Rounding to the nearest integer, a tie going to the even neighbour.\<close>

definition round_half_even :: "real \<Rightarrow> int" where
  "round_half_even x =
     (let f = \<lfloor>x\<rfloor>; d = x - of_int f
      in if d < 1 / 2 then f
         else if 1 / 2 < d then f + 1
         else if even f then f else f + 1)"

text \<open>
  The binary exponent of a positive \<open>x\<close>: the \<open>e\<close> with \<open>2\<^sup>e \<le> x < 2\<^sup>e\<^sup>+\<^sup>1\<close>,
  found by halving or doubling \<open>x\<close>; the fuel bounds the search.
\<close>

fun binade :: "nat \<Rightarrow> real \<Rightarrow> int \<Rightarrow> int" where
  "binade 0 x e = e"
| "binade (Suc fuel) x e =
     (if 2 \<le> x then binade fuel (x / 2) (e + 1)
      else if x < 1 then binade fuel (x * 2) (e - 1)
      else e)"

text \<open>
  The float64 nearest to a real (IEEE 754 binary64, round to nearest, ties to
  even): 53 significant bits, so the spacing in the binade of exponent \<open>e\<close> is
  \<open>2\<^sup>e\<^sup>-\<^sup>5\<^sup>2\<close>; below \<open>2\<^sup>-\<^sup>1\<^sup>0\<^sup>2\<^sup>2\<close> the spacing stays that of the exponent \<open>-1022\<close>
  (subnormal numbers).  A Python float literal denotes \<open>to_float64\<close> of the
  decimal written.  Where the rounded magnitude reaches \<open>2\<^sup>1\<^sup>0\<^sup>2\<^sup>4\<close> the source
  yields an infinity, which no real denotes: \<open>finite64\<close> excludes that case.
\<close>

definition to_float64 :: "real \<Rightarrow> real" where
  "to_float64 x =
     (if x = 0 then 0
      else (let e = max (binade 2200 \<bar>x\<bar> 0) (- 1022);
                ulp = pow2 (e - 52)
            in of_int (round_half_even (x / ulp)) * ulp))"

definition finite64 :: "real \<Rightarrow> bool" where
  "finite64 x = (\<bar>to_float64 x\<bar> < pow2 1024)"

text \<open>\<open>a - b\<close> and \<open>a * b\<close> on float64 values: the exact result, rounded.\<close>

definition float_sub :: "real \<Rightarrow> real \<Rightarrow> real" where
  "float_sub a b = to_float64 (a - b)"

definition float_mul :: "real \<Rightarrow> real \<Rightarrow> real" where
  "float_mul a b = to_float64 (a * b)"

subsection \<open>The initial condition\<close>

text \<open>
  The setter of \<open>Simulator.initial_condition\<close>.  The source looks up \<open>c\<close>,
  \<open>PiAA\<close>, \<open>c\<close> again and \<open>Piaa\<close>; a missing key raises \<open>KeyError\<close> before the
  attribute is assigned.  \<open>c * PiAA * mGA\<close> is \<open>(c * PiAA) * mGA\<close>, each product
  rounded.
\<close>

definition set_initial_condition :: "simulator \<Rightarrow> real \<Rightarrow> error + simulator" where
  "set_initial_condition self mGA =
     (let mga = float_sub 1 mGA;
          initial_male_shares = [mGA, 0, 0, mga]
      in (case getitem (fam_params (sim_family self)) ''c'' of
            Inl e \<Rightarrow> Inl e
          | Inr c \<Rightarrow>
         (case getitem (fam_params (sim_family self)) ''PiAA'' of
            Inl e \<Rightarrow> Inl e
          | Inr PiAA \<Rightarrow>
         (case getitem (fam_params (sim_family self)) ''Piaa'' of
            Inl e \<Rightarrow> Inl e
          | Inr Piaa \<Rightarrow>
              (let fGA0 = float_mul (float_mul c PiAA) mGA;
                   fga0 = float_mul (float_mul c Piaa) mga;
                   initial_number_females = [fGA0, 0, 0, fga0];
                   initial_condition = initial_male_shares @ initial_number_females
               in Inr (self\<lparr>stored_initial_condition := Some initial_condition\<rparr>))))))"

text \<open>The getter: reading the attribute before it was ever set raises.\<close>

definition get_initial_condition :: "simulator \<Rightarrow> error + vec" where
  "get_initial_condition self =
     (case stored_initial_condition self of None \<Rightarrow> Inl AttributeError | Some v \<Rightarrow> Inr v)"

subsection \<open>Fixed-length trajectories\<close>

text \<open>
  \<open>traj[:, t] = v\<close> for a one-dimensional \<open>v\<close>: numpy accepts \<open>v\<close> of length 8,
  broadcasts a \<open>v\<close> of length 1, and raises \<open>ValueError\<close> for any other length.
\<close>

definition set_column :: "trajectory \<Rightarrow> nat \<Rightarrow> vec \<Rightarrow> error + trajectory" where
  "set_column traj t v =
     (if length v = 8 then Inr (traj[t := v])
      else if length v = 1 then Inr (traj[t := replicate 8 (hd v)])
      else Inl ValueError)"

text \<open>
  \<open>np.empty((8, T))\<close> returns uninitialised memory; zeros stand for it.  The
  loops below write every column before reading it.
\<close>

definition np_empty :: "nat \<Rightarrow> trajectory" where
  "np_empty T = replicate T (replicate 8 0)"

text \<open>The body of \<open>for t in range(1, T)\<close>, over the remaining values of \<open>t\<close>.\<close>

fun fixed_loop :: "(vec \<Rightarrow> vec) \<Rightarrow> nat list \<Rightarrow> trajectory \<Rightarrow> error + trajectory" where
  "fixed_loop step [] traj = Inr traj"
| "fixed_loop step (t # ts) traj =
     (let current_shares = traj ! (t - 1);
          new_shares = step current_shares
      in case set_column traj t new_shares of
           Inl e \<Rightarrow> Inl e
         | Inr traj' \<Rightarrow> fixed_loop step ts traj')"

text \<open>
  \<open>Simulator._simulate_fixed_trajectory\<close>.  \<open>np.empty\<close> rejects a negative
  dimension with \<open>ValueError\<close>; with \<open>T = 0\<close> the array has no column 0 and the
  first assignment raises \<open>IndexError\<close>.
\<close>

definition simulate_fixed_trajectory :: "simulator \<Rightarrow> vec \<Rightarrow> int \<Rightarrow> error + trajectory" where
  "simulate_fixed_trajectory self initial_condition T =
     (if T < 0 then Inl ValueError
      else if T = 0 then Inl IndexError
      else case set_column (np_empty (nat T)) 0 initial_condition of
             Inl e \<Rightarrow> Inl e
           | Inr traj \<Rightarrow> fixed_loop (Simulator_F self) [1..<nat T] traj)"

subsection \<open>Variable-length trajectories\<close>

text \<open>\<open>np.any(np.greater(delta, rtol))\<close> and \<open>np.abs(new_shares - current_shares)\<close>.\<close>

definition any_greater :: "vec \<Rightarrow> real \<Rightarrow> bool" where
  "any_greater delta rtol = list_ex (\<lambda>d. d > rtol) delta"

definition abs_diff :: "vec \<Rightarrow> vec \<Rightarrow> vec" where
  "abs_diff new_shares current_shares = map2 (\<lambda>a b. \<bar>a - b\<bar>) new_shares current_shares"

text \<open>
  The \<open>while\<close> loop of \<open>Simulator._simulate_variable_trajectory\<close>.  The source
  has no bound on the number of iterations, so the loop is a partial function:
  \<open>None\<close> is a run that never returns.  The last column of \<open>traj\<close> always has
  length 8; a \<open>new_shares\<close> of any other length makes either the subtraction or
  \<open>np.hstack\<close> raise \<open>ValueError\<close>.
\<close>

partial_function (option) variable_loop ::
  "(vec \<Rightarrow> vec) \<Rightarrow> real \<Rightarrow> trajectory \<Rightarrow> vec \<Rightarrow> (error + trajectory) option" where
  "variable_loop step rtol traj delta =
     (if any_greater delta rtol then
        (let current_shares = last traj;
             new_shares = step current_shares
         in if length new_shares \<noteq> 8 then Some (Inl ValueError)
            else variable_loop step rtol (traj @ [new_shares])
                   (abs_diff new_shares current_shares))
      else Some (Inr traj))"

text \<open>
  \<open>initial_condition.reshape((8, 1))\<close> raises \<open>ValueError\<close> unless the array has
  exactly 8 entries; \<open>delta\<close> starts as \<open>np.ones(8)\<close>.
\<close>

definition simulate_variable_trajectory ::
  "simulator \<Rightarrow> vec \<Rightarrow> real \<Rightarrow> (error + trajectory) option" where
  "simulate_variable_trajectory self initial_condition rtol =
     (if length initial_condition \<noteq> 8 then Some (Inl ValueError)
      else variable_loop (Simulator_F self) rtol [initial_condition] (replicate 8 1))"

text \<open>
  \<open>Simulator.simulate\<close>: \<open>T\<close> wins when both arguments are given; with neither
  the call raises \<open>ValueError\<close>.
\<close>

definition Simulator_simulate :: "simulator \<Rightarrow> real option \<Rightarrow> int option \<Rightarrow> (error + trajectory) option" where
  "Simulator_simulate self rtol T =
     (case T of
        Some t \<Rightarrow>
          (case get_initial_condition self of
             Inl e \<Rightarrow> Some (Inl e)
           | Inr ic \<Rightarrow> Some (simulate_fixed_trajectory self ic t))
      | None \<Rightarrow>
          (case rtol of
             Some r \<Rightarrow>
               (case get_initial_condition self of
                  Inl e \<Rightarrow> Some (Inl e)
                | Inr ic \<Rightarrow> simulate_variable_trajectory self ic r)
           | None \<Rightarrow> Some (Inl ValueError)))"

section \<open>numpy arithmetic on two-dimensional arrays\<close>

definition nrows :: "matrix \<Rightarrow> nat" where
  "nrows A = length A"

definition ncols :: "matrix \<Rightarrow> nat" where
  "ncols A = (case A of [] \<Rightarrow> 0 | r # _ \<Rightarrow> length r)"

text \<open>\<open>has_shape A n m\<close>: \<open>A.shape == (n, m)\<close>.\<close>

definition has_shape :: "matrix \<Rightarrow> nat \<Rightarrow> nat \<Rightarrow> bool" where
  "has_shape A n m = (length A = n \<and> list_all (\<lambda>r. length r = m) A)"

text \<open>
  Broadcasting of one axis: equal extents agree, an extent of 1 stretches to the
  other, anything else raises \<open>ValueError\<close>.
\<close>

definition broadcast_dim :: "nat \<Rightarrow> nat \<Rightarrow> error + nat" where
  "broadcast_dim a b =
     (if a = b then Inr a
      else if a = 1 then Inr b
      else if b = 1 then Inr a
      else Inl ValueError)"

text \<open>Entry \<open>(i, j)\<close> of \<open>A\<close> stretched to the broadcast shape.\<close>

definition stretched :: "matrix \<Rightarrow> nat \<Rightarrow> nat \<Rightarrow> real" where
  "stretched A i j =
     (A ! (if nrows A = 1 then 0 else i)) ! (if ncols A = 1 then 0 else j)"

text \<open>
  \<open>A * B\<close>, the elementwise product with broadcasting.  A one-dimensional array
  of length \<open>n\<close> behaves in a product with a two-dimensional array as the array
  of shape \<open>(1, n)\<close>.
\<close>

definition np_multiply :: "matrix \<Rightarrow> matrix \<Rightarrow> error + matrix" where
  "np_multiply A B =
     (case broadcast_dim (nrows A) (nrows B) of
        Inl e \<Rightarrow> Inl e
      | Inr n \<Rightarrow>
     (case broadcast_dim (ncols A) (ncols B) of
        Inl e \<Rightarrow> Inl e
      | Inr m \<Rightarrow>
          Inr (map (\<lambda>i. map (\<lambda>j. stretched A i j * stretched B i j) [0..<m]) [0..<n])))"

text \<open>\<open>np.sum(A, axis=0)\<close>: the sums of the columns.\<close>

definition np_sum_axis0 :: "matrix \<Rightarrow> vec" where
  "np_sum_axis0 A = map (\<lambda>j. sum_list (map (\<lambda>row. row ! j) A)) [0..<ncols A]"

text \<open>\<open>np.sum(A)\<close> and \<open>A**2\<close>.\<close>

definition np_sum :: "matrix \<Rightarrow> real" where
  "np_sum A = sum_list (concat A)"

definition np_square :: "matrix \<Rightarrow> matrix" where
  "np_square A = map (map (\<lambda>v. v * v)) A"

section \<open>package/model.py\<close>

text \<open>
  The module \<open>wrapped_symbolics\<close> is not part of the sources at hand; its four
  functions are parameters.  Each takes the eight shares (the unpacked \<open>X\<close>) and
  the parameters and returns an array.
\<close>

record symbolics =
  residual_sym :: "vec \<Rightarrow> params \<Rightarrow> matrix"
  residual_jacobian_sym :: "vec \<Rightarrow> params \<Rightarrow> matrix"
  model_system_sym :: "vec \<Rightarrow> params \<Rightarrow> matrix"
  model_jacobian_sym :: "vec \<Rightarrow> params \<Rightarrow> matrix"

text \<open>
  What the code reads of the object that \<open>scipy.optimize\<close> returns: the solution
  \<open>x\<close>, the flag \<open>success\<close> and the value \<open>fun\<close>.
\<close>

record optimize_result =
  res_x :: vec
  res_success :: bool
  res_fun :: real

text \<open>The \<open>jac\<close> argument of \<open>scipy.optimize.root\<close>: \<open>False\<close> or a callable.\<close>

datatype jac_option = JacFalse | JacCallable "vec \<Rightarrow> error + matrix"

text \<open>
  The library functions the code calls are parameters as well:
  \<open>scipy.optimize.minimize\<close> (objective, \<open>x0\<close>, method, gradient, bounds,
  constraints, further keyword arguments), \<open>scipy.optimize.root\<close> (residual,
  \<open>x0\<close>, method, \<open>jac\<close>, further keyword arguments) and \<open>scipy.linalg.eig\<close>,
  of which the code keeps the eigenvalues.  An exception that leaves a library
  call is the \<open>Inl\<close> result.
\<close>

record scipy =
  scipy_minimize :: "(vec \<Rightarrow> error + real) \<Rightarrow> vec \<Rightarrow> string \<Rightarrow> (vec \<Rightarrow> error + vec) \<Rightarrow>
               (real \<times> real) list \<Rightarrow> (vec \<Rightarrow> real) list \<Rightarrow> params \<Rightarrow> error + optimize_result"
  scipy_root :: "(vec \<Rightarrow> error + vec) \<Rightarrow> vec \<Rightarrow> string \<Rightarrow> jac_option \<Rightarrow> params \<Rightarrow>
           error + optimize_result"
  scipy_eig :: "matrix \<Rightarrow> complex list"

record model =
  model_initial_guess :: vec
  model_params :: params
  solver_kwargs :: params

text \<open>\<open>Model._get__bound_constraints\<close>, with \<open>eps = 1e-15\<close>.\<close>

definition get_bound_constraints :: "(real \<times> real) list" where
  "get_bound_constraints = (let eps = 1 / 10 ^ 15 in map (\<lambda>i. (eps, 1 - eps)) [0..<8])"

definition get_female_alleles_constraint :: "vec \<Rightarrow> real" where
  "get_female_alleles_constraint X = 1 - sum_list (drop 4 X)"

definition get_male_alleles_constraint :: "vec \<Rightarrow> real" where
  "get_male_alleles_constraint X = 1 - sum_list (take 4 X)"

definition get_equality_constraints :: "(vec \<Rightarrow> real) list" where
  "get_equality_constraints = [get_male_alleles_constraint, get_female_alleles_constraint]"

text \<open>
  \<open>Model._residual\<close> and \<open>Model._objective\<close>.  Neither has a \<open>raise\<close> in the
  source; their results are sums so that the error condition the specification
  attaches to them can be stated.
\<close>

definition Model_residual :: "symbolics \<Rightarrow> model \<Rightarrow> vec \<Rightarrow> error + matrix" where
  "Model_residual ws self X = (let resid = residual_sym ws X (model_params self) in Inr resid)"

definition Model_residual_jacobian :: "symbolics \<Rightarrow> model \<Rightarrow> vec \<Rightarrow> matrix" where
  "Model_residual_jacobian ws self X = (let jac = residual_jacobian_sym ws X (model_params self) in jac)"

definition Model_objective :: "symbolics \<Rightarrow> model \<Rightarrow> vec \<Rightarrow> error + real" where
  "Model_objective ws self X =
     (case Model_residual ws self X of
        Inl e \<Rightarrow> Inl e
      | Inr resid \<Rightarrow> (let obj = (1 / 2) * np_sum (np_square resid) in Inr obj))"

text \<open>
  \<open>Model._jacobian\<close>, the gradient handed to the minimizer:
  \<open>np.sum(self._residual(X) * self._residual_jacobian(X), axis=0)\<close>.
\<close>

definition Model_jacobian :: "symbolics \<Rightarrow> model \<Rightarrow> vec \<Rightarrow> error + vec" where
  "Model_jacobian ws self X =
     (case Model_residual ws self X of
        Inl e \<Rightarrow> Inl e
      | Inr resid \<Rightarrow>
     (case np_multiply resid (Model_residual_jacobian ws self X) of
        Inl e \<Rightarrow> Inl e
      | Inr product \<Rightarrow> (let jac = np_sum_axis0 product in Inr jac)))"

text \<open>\<open>Model.F\<close> (\<open>flatten\<close> goes row by row) and \<open>Model.F_jacobian\<close>.\<close>

definition Model_F :: "symbolics \<Rightarrow> model \<Rightarrow> vec \<Rightarrow> vec" where
  "Model_F ws self X = (let out = model_system_sym ws X (model_params self) in concat out)"

definition Model_F_jacobian :: "symbolics \<Rightarrow> model \<Rightarrow> vec \<Rightarrow> matrix" where
  "Model_F_jacobian ws self X = (let jac = model_jacobian_sym ws X (model_params self) in jac)"

text \<open>
  \<open>Model._get_steady_state\<close>: the result of the minimizer is returned as it is.
  (The property is cached in the source; the cache is not modelled.)
\<close>

definition get_steady_state :: "scipy \<Rightarrow> symbolics \<Rightarrow> model \<Rightarrow> error + optimize_result" where
  "get_steady_state lib ws self =
     (let result = scipy_minimize lib (Model_objective ws self) (model_initial_guess self) ''SLSQP''
                     (Model_jacobian ws self) get_bound_constraints
                     get_equality_constraints (solver_kwargs self)
      in result)"

text \<open>\<open>Model._get_eigenvalues\<close> and \<open>Model._get_isstable\<close>.\<close>

definition get_eigenvalues :: "scipy \<Rightarrow> symbolics \<Rightarrow> model \<Rightarrow> error + complex list" where
  "get_eigenvalues lib ws self =
     (case get_steady_state lib ws self of
        Inl e \<Rightarrow> Inl e
      | Inr steady_state \<Rightarrow>
          (let evaluated_jac = Model_F_jacobian ws self (res_x steady_state);
               eigen_vals = scipy_eig lib evaluated_jac
           in Inr eigen_vals))"

definition get_isstable :: "scipy \<Rightarrow> symbolics \<Rightarrow> model \<Rightarrow> error + bool" where
  "get_isstable lib ws self =
     (case get_eigenvalues lib ws self of
        Inl e \<Rightarrow> Inl e
      | Inr eigenvalues \<Rightarrow> Inr (list_all (\<lambda>z. cmod z < 1) eigenvalues))"

text \<open>\<open>Model.simulate\<close>: the same loop as the simulator's fixed-length one.\<close>

definition Model_simulate :: "symbolics \<Rightarrow> model \<Rightarrow> vec \<Rightarrow> int \<Rightarrow> error + trajectory" where
  "Model_simulate ws self initial_condition T =
     (if T < 0 then Inl ValueError
      else if T = 0 then Inl IndexError
      else case set_column (np_empty (nat T)) 0 initial_condition of
             Inl e \<Rightarrow> Inl e
           | Inr traj \<Rightarrow> fixed_loop (Model_F ws self) [1..<nat T] traj)"

section \<open>package/solvers.py\<close>

text \<open>
  A solver object is its instance attributes.  \<open>__init__\<close> assigns \<open>family\<close> only;
  \<open>_initial_guess\<close> exists once the setter has run.  The methods also read
  \<open>self._numeric_system\<close> and the name-mangled \<open>self.__numeric_jacobian\<close>, which
  no statement of the class assigns: \<open>None\<close> is an attribute that does not exist,
  and reading it raises \<open>AttributeError\<close>.  (Where \<open>__numeric_jacobian\<close> exists
  and holds a compiled function, that function is the field's value; compiling it
  with sympy is outside the model.)
\<close>

record solver =
  solver_family :: family
  solver_initial_guess :: "vec option"
  attr_numeric_system :: "(vec \<Rightarrow> vec \<Rightarrow> params \<Rightarrow> matrix) option"
  attr_private_numeric_jacobian :: "(vec \<Rightarrow> vec \<Rightarrow> params \<Rightarrow> matrix) option"

definition Solver_init :: "family \<Rightarrow> solver" where
  "Solver_init fam =
     \<lparr>solver_family = fam, solver_initial_guess = None,
      attr_numeric_system = None, attr_private_numeric_jacobian = None\<rparr>"

definition set_initial_guess :: "solver \<Rightarrow> vec \<Rightarrow> solver" where
  "set_initial_guess self v = self\<lparr>solver_initial_guess := Some v\<rparr>"

definition get_initial_guess :: "solver \<Rightarrow> error + vec" where
  "get_initial_guess self =
     (case solver_initial_guess self of None \<Rightarrow> Inl AttributeError | Some v \<Rightarrow> Inr v)"

text \<open>\<open>Solver.jacobian\<close> and \<open>Solver.residual\<close>.\<close>

definition Solver_jacobian :: "solver \<Rightarrow> vec \<Rightarrow> error + matrix" where
  "Solver_jacobian self X =
     (case attr_private_numeric_jacobian self of
        None \<Rightarrow> Inl AttributeError
      | Some f \<Rightarrow> (let jac = f (take 4 X) (drop 4 X) (fam_params (solver_family self)) in Inr jac))"

definition Solver_residual :: "solver \<Rightarrow> vec \<Rightarrow> error + vec" where
  "Solver_residual self X =
     (case attr_numeric_system self of
        None \<Rightarrow> Inl AttributeError
      | Some f \<Rightarrow>
          (let residual = f (take 4 X) (drop 4 X) (fam_params (solver_family self))
           in Inr (ravel residual)))"

text \<open>\<open>RootFinder.solve\<close>.\<close>

definition RootFinder_solve ::
  "scipy \<Rightarrow> solver \<Rightarrow> string \<Rightarrow> bool \<Rightarrow> params \<Rightarrow> error + optimize_result" where
  "RootFinder_solve lib self method with_jacobian kwargs =
     (let jac = (if with_jacobian then JacCallable (Solver_jacobian self) else JacFalse)
      in case get_initial_guess self of
           Inl e \<Rightarrow> Inl e
         | Inr x0 \<Rightarrow> (let result = scipy_root lib (Solver_residual self) x0 method jac kwargs in result))"

section \<open>Notions of the specification\<close>


text \<open>The state after \<open>n\<close> applications of the motion map.\<close>

primrec iterate :: "(vec \<Rightarrow> vec) \<Rightarrow> nat \<Rightarrow> vec \<Rightarrow> vec" where
  "iterate step 0 x = x"
| "iterate step (Suc n) x = step (iterate step n x)"

text \<open>Each half of the state sums to one, within the tolerance \<open>tol\<close>.\<close>

definition half_sums_to_one :: "real \<Rightarrow> vec \<Rightarrow> bool" where
  "half_sums_to_one tol x =
     (\<bar>sum_list (take 4 x) - 1\<bar> \<le> tol \<and> \<bar>sum_list (drop 4 x) - 1\<bar> \<le> tol)"

text \<open>Some component lies outside \<open>[0, 1]\<close> by more than \<open>slack\<close>.\<close>

definition outside_domain :: "real \<Rightarrow> vec \<Rightarrow> bool" where
  "outside_domain slack X = list_ex (\<lambda>v. v < 0 - slack \<or> 1 + slack < v) X"

section \<open>Concrete objects\<close>



definition still_family :: family where
  "still_family = \<lparr>fam_params = [''c'' \<mapsto> 1, ''PiAA'' \<mapsto> 5, ''Piaa'' \<mapsto> 3],
                   numeric_system = (\<lambda>m f p. [m @ f])\<rparr>"

definition still_simulator :: simulator where
  "still_simulator = \<lparr>sim_family = still_family, stored_initial_condition = None\<rparr>"

text \<open>A motion map that reverses the order of the genotypes within each sex.\<close>

definition swap_family :: family where
  "swap_family = \<lparr>fam_params = Map.empty,
                  numeric_system = (\<lambda>m f p. [rev m @ rev f])\<rparr>"

definition swap_simulator :: simulator where
  "swap_simulator = \<lparr>sim_family = swap_family, stored_initial_condition = None\<rparr>"

definition corner_state :: vec where
  "corner_state = [1, 0, 0, 0, 1, 0, 0, 0]"

text \<open>
  A symbolic system with motion map \<open>X \<mapsto> X / 2\<close>: its residual is the column
  \<open>-X / 2\<close>, the Jacobian of the motion map is \<open>I / 2\<close> and that of the residual
  is \<open>-I / 2\<close>.
\<close>

definition halving_symbolics :: symbolics where
  "halving_symbolics =
     \<lparr>residual_sym = (\<lambda>X p. map (\<lambda>v. [- v / 2]) X),
      residual_jacobian_sym =
        (\<lambda>X p. map (\<lambda>i. map (\<lambda>j. if i = j then - 1 / 2 else 0) [0..<8]) [0..<8]),
      model_system_sym = (\<lambda>X p. map (\<lambda>v. [v / 2]) X),
      model_jacobian_sym =
        (\<lambda>X p. map (\<lambda>i. map (\<lambda>j. if i = j then 1 / 2 else 0) [0..<8]) [0..<8])\<rparr>"

text \<open>
  A stand-in for the library: a minimizer and a root finder that evaluate their
  first argument at \<open>x0\<close>, pass on what it raises, and otherwise stop at once
  and report \<open>x0\<close> with the given success flag; \<open>eig\<close> reads the diagonal, which
  holds the eigenvalues of a diagonal matrix.
\<close>

definition stand_in_scipy :: "bool \<Rightarrow> scipy" where
  "stand_in_scipy flag =
     \<lparr>scipy_minimize = (\<lambda>obj x0 method jac bounds cons kw.
         case obj x0 of
           Inl e \<Rightarrow> Inl e
         | Inr v \<Rightarrow> Inr \<lparr>res_x = x0, res_success = flag, res_fun = v\<rparr>),
      scipy_root = (\<lambda>resid x0 method jac kw.
         case resid x0 of
           Inl e \<Rightarrow> Inl e
         | Inr r \<Rightarrow> Inr \<lparr>res_x = x0, res_success = flag, res_fun = 0\<rparr>),
      scipy_eig = (\<lambda>A. map (\<lambda>i. complex_of_real (A ! i ! i)) [0..<length A])\<rparr>"

definition plain_model :: model where
  "plain_model = \<lparr>model_initial_guess = corner_state, model_params = Map.empty,
                  solver_kwargs = Map.empty\<rparr>"


definition far_state :: vec where
  "far_state = [2, 0, 0, 0, 0, 0, 0, 0]"

section \<open>The variable-length loop\<close>

text \<open>One round of the loop, and the two ways it ends.\<close>

lemma variable_loop_stop:
  "\<not> any_greater delta rtol \<Longrightarrow> variable_loop step rtol traj delta = Some (Inr traj)"
  by (subst variable_loop.simps) simp

lemma variable_loop_step:
  "any_greater delta rtol \<Longrightarrow> length (step (last traj)) = 8 \<Longrightarrow>
   variable_loop step rtol traj delta =
     variable_loop step rtol (traj @ [step (last traj)]) (abs_diff (step (last traj)) (last traj))"
  by (subst variable_loop.simps) (simp add: Let_def)

lemma variable_loop_raise:
  "any_greater delta rtol \<Longrightarrow> length (step (last traj)) \<noteq> 8 \<Longrightarrow>
   variable_loop step rtol traj delta = Some (Inl ValueError)"
  by (subst variable_loop.simps) (simp add: Let_def)

lemma any_greater_ones: "any_greater (replicate 8 1) rtol \<longleftrightarrow> rtol < 1"
  by (auto simp: any_greater_def list_ex_iff)







lemma variable_loop_rule:
  assumes ret: "variable_loop step rtol traj delta = Some y"
    and init: "I traj delta"
    and pres: "\<And>traj delta. I traj delta \<Longrightarrow> any_greater delta rtol \<Longrightarrow>
                 length (step (last traj)) = 8 \<Longrightarrow>
                 I (traj @ [step (last traj)]) (abs_diff (step (last traj)) (last traj))"
  shows "\<exists>traj' delta'. I traj' delta' \<and>
           (if any_greater delta' rtol
            then length (step (last traj')) \<noteq> 8 \<and> y = Inl ValueError
            else y = Inr traj')"
proof -
  let ?Q = "\<lambda>y. \<exists>traj' delta'. I traj' delta' \<and>
           (if any_greater delta' rtol
            then length (step (last traj')) \<noteq> 8 \<and> y = Inl ValueError
            else y = Inr traj')"
  have "step = step \<longrightarrow> rtol = rtol \<longrightarrow> I traj delta \<longrightarrow> ?Q y"
  proof (rule variable_loop.raw_induct
      [where P = "\<lambda>s r traj delta y. s = step \<longrightarrow> r = rtol \<longrightarrow> I traj delta \<longrightarrow> ?Q y", OF _ ret])
    fix loop :: "(vec \<Rightarrow> vec) \<Rightarrow> real \<Rightarrow> trajectory \<Rightarrow> vec \<Rightarrow> (error + trajectory) option"
    fix s r tr d z
    assume IH: "\<And>s r tr d z. loop s r tr d = Some z \<Longrightarrow>
                  s = step \<longrightarrow> r = rtol \<longrightarrow> I tr d \<longrightarrow> ?Q z"
      and body: "(if any_greater d r then
          (let current_shares = last tr;
               new_shares = s current_shares
           in if length new_shares \<noteq> 8 then Some (Inl ValueError)
              else loop s r (tr @ [new_shares])
                     (abs_diff new_shares current_shares))
        else Some (Inr tr)) = Some z"
    show "s = step \<longrightarrow> r = rtol \<longrightarrow> I tr d \<longrightarrow> ?Q z"
    proof (intro impI)
      assume s: "s = step" and r: "r = rtol" and inv: "I tr d"
      show "?Q z"
      proof (cases "any_greater d rtol")
        case False
        with body r have "z = Inr tr" by simp
        with False inv show ?thesis by auto
      next
        case True
        show ?thesis
        proof (cases "length (step (last tr)) = 8")
          case False
          with True body s r have "z = Inl ValueError" by (simp add: Let_def)
          with True False inv show ?thesis by auto
        next
          case len: True
          with True body s r have call:
            "loop step rtol (tr @ [step (last tr)]) (abs_diff (step (last tr)) (last tr)) = Some z"
            by (simp add: Let_def)
          from pres[OF inv True len] IH[OF call] show ?thesis by simp
        qed
      qed
    qed
  qed
  with init show ?thesis by simp
qed




lemma iterate_length:
  assumes "\<forall>x. length x = 8 \<longrightarrow> length (step x) = 8" and "length x = 8"
  shows "length (iterate step n x) = 8"
  using assms by (induction n) simp_all

lemma simulate_variable_first_step:
  assumes "length init = 8" and "rtol < 1"
  shows "simulate_variable_trajectory self init rtol =
         (if length (Simulator_F self init) = 8
          then variable_loop (Simulator_F self) rtol [init, Simulator_F self init]
                 (abs_diff (Simulator_F self init) init)
          else Some (Inl ValueError))"
proof -
  have gt: "any_greater (replicate 8 1) rtol"
    using assms(2) by (simp add: any_greater_ones)
  show ?thesis
  proof (cases "length (Simulator_F self init) = 8")
    case True
    then have "length (Simulator_F self (last [init])) = 8" by simp
    from variable_loop_step[where step = "Simulator_F self" and traj = "[init]", OF gt this]
    show ?thesis using assms(1) True by (simp add: simulate_variable_trajectory_def)
  next
    case False
    then have "length (Simulator_F self (last [init])) \<noteq> 8" by simp
    from variable_loop_raise[where step = "Simulator_F self" and traj = "[init]", OF gt this]
    show ?thesis using assms(1) False by (simp add: simulate_variable_trajectory_def)
  qed
qed

lemma variable_loop_extends:
  assumes "variable_loop step rtol traj delta = Some (Inr r)"
  shows "\<exists>ys. r = traj @ ys"
proof -
  have "\<exists>traj' delta'. (\<exists>ys. traj' = traj @ ys) \<and>
           (if any_greater delta' rtol
            then length (step (last traj')) \<noteq> 8 \<and> Inr r = (Inl ValueError :: error + trajectory)
            else (Inr r :: error + trajectory) = Inr traj')"
    by (rule variable_loop_rule[where I = "\<lambda>t d. \<exists>ys. t = traj @ ys", OF assms]) auto
  then show ?thesis by (auto split: if_splits)
qed

lemma still_F: "Simulator_F still_simulator X = take 4 X @ drop 4 X"
  by (simp add: Simulator_F_def still_simulator_def still_family_def ravel_def)


lemma simulate_variable_unfold:
  "length init = 8 \<Longrightarrow>
   simulate_variable_trajectory self init rtol =
     variable_loop (Simulator_F self) rtol [init] (replicate 8 1)"
  by (simp add: simulate_variable_trajectory_def)







section \<open>The fixed-length loop\<close>

text \<open>The loop fills column \<open>t\<close> with the \<open>t\<close>-th iterate of the motion map.\<close>

lemma set_column_ok: "length v = 8 \<Longrightarrow> set_column traj t v = Inr (traj[t := v])"
  by (simp add: set_column_def)

lemma fixed_loop_run:
  assumes len: "\<forall>t. length (iterate step t init) = 8"
  shows "length traj = n \<Longrightarrow> 1 \<le> k \<Longrightarrow> k \<le> n \<Longrightarrow>
         (\<forall>t<k. traj ! t = iterate step t init) \<Longrightarrow>
         fixed_loop step [k..<n] traj = Inr (map (\<lambda>t. iterate step t init) [0..<n])"
proof (induction "n - k" arbitrary: k traj)
  case 0
  then have "k = n" by simp
  with 0 have "traj = map (\<lambda>t. iterate step t init) [0..<n]"
    by (intro nth_equalityI) simp_all
  with \<open>k = n\<close> show ?case by simp
next
  case (Suc d)
  then have kn: "k < n" by simp
  let ?new = "step (traj ! (k - 1))"
  from Suc.prems have prev: "traj ! (k - 1) = iterate step (k - 1) init" by simp
  with Suc.prems(2) have new: "?new = iterate step k init"
    by (cases k) simp_all
  with len have "length ?new = 8" by simp
  then have col: "set_column traj k ?new = Inr (traj[k := ?new])"
    by (rule set_column_ok)
  have upd: "\<forall>t<Suc k. traj[k := ?new] ! t = iterate step t init"
    using Suc.prems kn new by (auto simp: nth_list_update less_Suc_eq)
  have "fixed_loop step [Suc k..<n] (traj[k := ?new]) =
        Inr (map (\<lambda>t. iterate step t init) [0..<n])"
  proof (rule Suc.hyps(1))
    show "d = n - Suc k" using Suc.hyps(2) by simp
    show "length (traj[k := ?new]) = n" using Suc.prems by simp
    show "1 \<le> Suc k" by simp
    show "Suc k \<le> n" using kn by simp
    show "\<forall>t<Suc k. traj[k := ?new] ! t = iterate step t init" by (rule upd)
  qed
  with col kn show ?case by (simp add: upt_conv_Cons Let_def)
qed

lemma fixed_trajectory_closed_form:
  assumes len: "\<forall>t. length (iterate step t init) = 8" and n: "1 \<le> n"
  shows "(case set_column (np_empty n) 0 init of
            Inl e \<Rightarrow> Inl e
          | Inr traj \<Rightarrow> fixed_loop step [1..<n] traj) =
         Inr (map (\<lambda>t. iterate step t init) [0..<n])"
proof -
  from len[rule_format, of 0] have l0: "length init = 8" by simp
  then have col: "set_column (np_empty n) 0 init = Inr ((np_empty n)[0 := init])"
    by (rule set_column_ok)
  have "fixed_loop step [1..<n] ((np_empty n)[0 := init]) =
        Inr (map (\<lambda>t. iterate step t init) [0..<n])"
  proof (rule fixed_loop_run[OF len])
    show "length ((np_empty n)[0 := init]) = n" by (simp add: np_empty_def)
    show "(1::nat) \<le> 1" by simp
    show "1 \<le> n" by (rule n)
    show "\<forall>t<1. (np_empty n)[0 := init] ! t = iterate step t init"
      using n by (simp add: np_empty_def)
  qed
  with col show ?thesis by simp
qed

lemma halving_F: "Model_F halving_symbolics m X = map (\<lambda>v. v / 2) X"
  by (induction X) (simp_all add: Model_F_def halving_symbolics_def)

lemma three_states: "length xs = 3 \<Longrightarrow> xs = [xs ! 0, xs ! 1, xs ! 2]"
  by (rule nth_equalityI) (auto simp: less_Suc_eq numeral_3_eq_3 numeral_2_eq_2)

section \<open>Properties kept along a trajectory\<close>

lemma variable_loop_all_states:
  assumes ret: "variable_loop step rtol traj delta = Some (Inr r)"
    and ne: "traj \<noteq> []"
    and start: "\<forall>s\<in>set traj. P s"
    and pres: "\<forall>x. P x \<longrightarrow> P (step x)"
  shows "\<forall>s\<in>set r. P s"
proof -
  let ?I = "\<lambda>(t :: trajectory) (d :: vec). t \<noteq> [] \<and> (\<forall>s\<in>set t. P s)"
  have "\<exists>traj' delta'. ?I traj' delta' \<and>
           (if any_greater delta' rtol
            then length (step (last traj')) \<noteq> 8 \<and> (Inr r :: error + trajectory) = Inl ValueError
            else (Inr r :: error + trajectory) = Inr traj')"
  proof (rule variable_loop_rule[where I = ?I, OF ret])
    show "?I traj delta" using ne start by simp
  next
    fix t d
    assume "?I t d" and "any_greater d rtol" and "length (step (last t)) = 8"
    then show "?I (t @ [step (last t)]) (abs_diff (step (last t)) (last t))"
      using pres by simp
  qed
  then show ?thesis by (auto split: if_splits)
qed

lemma swap_F: "Simulator_F swap_simulator X = rev (take 4 X) @ rev (drop 4 X)"
  by (simp add: Simulator_F_def swap_simulator_def swap_family_def ravel_def)

lemma swap_keeps_half_sums:
  "length x = 8 \<and> half_sums_to_one tol x \<longrightarrow>
     length (Simulator_F swap_simulator x) = 8 \<and> half_sums_to_one tol (Simulator_F swap_simulator x)"
  by (simp add: swap_F half_sums_to_one_def sum_list_rev)

lemma swap_three_steps:
  "simulate_fixed_trajectory swap_simulator corner_state 3 =
     Inr [corner_state, [0, 0, 0, 1, 0, 0, 0, 1], corner_state]"
  by (simp add: simulate_fixed_trajectory_def set_column_def np_empty_def swap_F corner_state_def
      upt_rec numeral_eq_Suc Let_def)

section \<open>float64 values of the initial condition\<close>

lemma binade_numeral:
  "binade (numeral k) x e =
     (if 2 \<le> x then binade (pred_numeral k) (x / 2) (e + 1)
      else if x < 1 then binade (pred_numeral k) (x * 2) (e - 1)
      else e)"
  by (simp add: numeral_eq_Suc)

lemmas float64_eval =
  to_float64_def round_half_even_def binade_numeral pow2_def Let_def

text \<open>The literals \<open>0.3\<close>, \<open>0.7\<close> and \<open>2.1\<close>.\<close>

lemma float_0_3: "to_float64 (3 / 10) = 5404319552844595 / 2 ^ 54"
  by (simp add: float64_eval)

lemma float_0_7: "to_float64 (7 / 10) = 3152519739159347 / 2 ^ 52"
  by (simp add: float64_eval)

lemma float_2_1: "to_float64 (21 / 10) = 4728779608739021 / 2 ^ 51"
  by (simp add: float64_eval)

text \<open>\<open>1 - 0.3\<close>, \<open>(1.0 * 5.0) * 0.3\<close> and \<open>(1.0 * 3.0) * 0.7\<close> as the source computes them.\<close>

lemma one_minus_0_3: "float_sub 1 (to_float64 (3 / 10)) = to_float64 (7 / 10)"
  unfolding float_0_3 float_0_7 by (simp add: float_sub_def float64_eval)

lemma five_times_0_3: "float_mul (float_mul 1 5) (to_float64 (3 / 10)) = 3 / 2"
  unfolding float_0_3 by (simp add: float_mul_def float64_eval)

lemma three_times_0_7:
  "float_mul (float_mul 1 3) (to_float64 (7 / 10)) = 1182194902184755 / 2 ^ 49"
  unfolding float_0_7 by (simp add: float_mul_def float64_eval)

lemma below_2_1: "(1182194902184755 / 2 ^ 49 :: real) = to_float64 (21 / 10) - 1 / 2 ^ 51"
  unfolding float_2_1 by simp

lemma three_times_0_7_below:
  "float_mul (float_mul 1 3) (to_float64 (7 / 10)) = to_float64 (21 / 10) - 1 / 2 ^ 51"
  by (simp only: three_times_0_7 below_2_1)

section \<open>The model and the solvers\<close>

text \<open>Broadcasting a column against a square array, and the concrete objects evaluated.\<close>

lemma has_shape_ncols: "has_shape A n m \<Longrightarrow> 0 < n \<Longrightarrow> ncols A = m"
  by (cases A) (simp_all add: has_shape_def ncols_def)

lemma has_shape_nrows: "has_shape A n m \<Longrightarrow> nrows A = n"
  by (simp add: has_shape_def nrows_def)

lemma np_multiply_column:
  assumes r: "has_shape r 8 1" and J: "has_shape J 8 8"
  shows "np_multiply r J = Inr (map (\<lambda>i. map (\<lambda>j. r ! i ! 0 * J ! i ! j) [0..<8]) [0..<8])"
proof -
  have "nrows r = 8" "ncols r = 1" "nrows J = 8" "ncols J = 8"
    using has_shape_nrows[OF r] has_shape_ncols[OF r] has_shape_nrows[OF J] has_shape_ncols[OF J]
    by simp_all
  then show ?thesis
    by (simp add: np_multiply_def broadcast_dim_def stretched_def)
qed

lemma np_sum_axis0_table:
  "np_sum_axis0 (map (\<lambda>i. map (\<lambda>j. f i j) [0..<8]) [0..<8]) =
     map (\<lambda>j. \<Sum>i<8. f i j) [0..<8]"
proof -
  let ?P = "map (\<lambda>i. map (\<lambda>j. f i j) [0..<8]) [0..<8]"
  have "[0..<8] = 0 # [1..<8]" by (simp add: upt_rec)
  then have "?P = map (\<lambda>j. f 0 j) [0..<8] # map (\<lambda>i. map (\<lambda>j. f i j) [0..<8]) [1..<8]"
    by simp
  then have cols: "ncols ?P = 8" by (simp add: ncols_def)
  have "sum_list (map (\<lambda>row. row ! j) ?P) = (\<Sum>i<8. f i j)" if "j < 8" for j
  proof -
    have "map (\<lambda>row. row ! j) ?P = map (\<lambda>i. f i j) [0..<8]"
      using that by (simp add: comp_def)
    then show ?thesis
      by (simp only: interv_sum_list_conv_sum_set_nat set_upt atLeast0LessThan)
  qed
  then show ?thesis
    unfolding np_sum_axis0_def cols by (intro map_cong) simp_all
qed

lemma upt_8: "[0..<8] = [0, 1, 2, 3, 4, 5, 6, 7]"
  by (simp add: upt_rec)

lemma sum_below_8:
  "(\<Sum>i<(8::nat). g i) = g 0 + g 1 + g 2 + g 3 + g 4 + g 5 + g 6 + (g 7 :: real)"
  by (simp add: numeral_eq_Suc)

lemma halving_residual_corner:
  "Model_residual halving_symbolics m corner_state =
     Inr [[- 1 / 2], [0], [0], [0], [- 1 / 2], [0], [0], [0]]"
  by (simp add: Model_residual_def halving_symbolics_def corner_state_def)

lemma halving_residual_jacobian:
  "Model_residual_jacobian halving_symbolics m X =
     [[- 1 / 2, 0, 0, 0, 0, 0, 0, 0], [0, - 1 / 2, 0, 0, 0, 0, 0, 0],
      [0, 0, - 1 / 2, 0, 0, 0, 0, 0], [0, 0, 0, - 1 / 2, 0, 0, 0, 0],
      [0, 0, 0, 0, - 1 / 2, 0, 0, 0], [0, 0, 0, 0, 0, - 1 / 2, 0, 0],
      [0, 0, 0, 0, 0, 0, - 1 / 2, 0], [0, 0, 0, 0, 0, 0, 0, - 1 / 2]]"
  by (simp add: Model_residual_jacobian_def halving_symbolics_def upt_8)


lemma halving_objective_corner:
  "Model_objective halving_symbolics m corner_state = Inr (1 / 4)"
  by (simp add: Model_objective_def halving_residual_corner np_sum_def np_square_def)

lemma stand_in_steady_state:
  "Model_objective ws self (model_initial_guess self) = Inr v \<Longrightarrow>
   get_steady_state (stand_in_scipy flag) ws self =
     Inr \<lparr>res_x = model_initial_guess self, res_success = flag, res_fun = v\<rparr>"
  by (simp add: get_steady_state_def stand_in_scipy_def)

lemma halving_model_jacobian:
  "model_jacobian_sym halving_symbolics X p =
     [[1 / 2, 0, 0, 0, 0, 0, 0, 0], [0, 1 / 2, 0, 0, 0, 0, 0, 0],
      [0, 0, 1 / 2, 0, 0, 0, 0, 0], [0, 0, 0, 1 / 2, 0, 0, 0, 0],
      [0, 0, 0, 0, 1 / 2, 0, 0, 0], [0, 0, 0, 0, 0, 1 / 2, 0, 0],
      [0, 0, 0, 0, 0, 0, 1 / 2, 0], [0, 0, 0, 0, 0, 0, 0, 1 / 2]]"
  by (simp add: halving_symbolics_def upt_8)

lemma stand_in_eig_halving:
  "scipy_eig (stand_in_scipy flag) (model_jacobian_sym halving_symbolics X p) =
     replicate 8 (complex_of_real (1 / 2))"
  by (simp add: stand_in_scipy_def halving_model_jacobian upt_8 numeral_eq_Suc)

lemma solver_residual_raises:
  "Solver_residual (set_initial_guess (Solver_init fam) guess) X = Inl AttributeError"
  by (simp add: Solver_residual_def set_initial_guess_def Solver_init_def)

lemma steady_state_is_minimizer_result:
  "get_steady_state lib ws self =
     scipy_minimize lib (Model_objective ws self) (model_initial_guess self) ''SLSQP''
       (Model_jacobian ws self) get_bound_constraints get_equality_constraints (solver_kwargs self)"
  by (simp add: get_steady_state_def)

section \<open>The claims of the specification\<close>

text \<open>
  Claim C10.  With \<open>T\<close> unspecified, \<open>simulate\<close> runs the variable-length
  simulation from the stored initial condition.  For an initial condition of 8
  shares: with \<open>rtol \<ge> 1\<close> the
  variable-length simulation returns the trajectory that holds the initial state
  alone, whatever the motion map is, because \<open>delta\<close> starts at 1 in every
  component; with \<open>rtol < 1\<close> the motion map is applied at least once, and a
  returned trajectory starts with the initial state and its image, so it has at
  least two states.
\<close>

theorem variable_trajectory_rtol_threshold:
  "length init = 8 \<longrightarrow>
     (stored_initial_condition self = Some init \<longrightarrow>
        Simulator_simulate self (Some rtol) None = simulate_variable_trajectory self init rtol) \<and>
     (1 \<le> rtol \<longrightarrow> simulate_variable_trajectory self init rtol = Some (Inr [init])) \<and>
     (rtol < 1 \<longrightarrow>
        simulate_variable_trajectory self init rtol =
          (if length (Simulator_F self init) = 8
           then variable_loop (Simulator_F self) rtol [init, Simulator_F self init]
                  (abs_diff (Simulator_F self init) init)
           else Some (Inl ValueError)) \<and>
        (\<forall>traj. simulate_variable_trajectory self init rtol = Some (Inr traj) \<longrightarrow>
           2 \<le> length traj \<and> (\<exists>rest. traj = init # Simulator_F self init # rest)))"
proof (rule impI)
  assume len: "length init = 8"
  have big: "simulate_variable_trajectory self init rtol = Some (Inr [init])" if "1 \<le> rtol"
  proof -
    from that have "\<not> any_greater (replicate 8 1) rtol" by (simp add: any_greater_ones)
    from variable_loop_stop[OF this] len show ?thesis
      by (simp add: simulate_variable_trajectory_def)
  qed
  have ret: "2 \<le> length traj \<and> (\<exists>rest. traj = init # Simulator_F self init # rest)"
    if small: "rtol < 1" and ret: "simulate_variable_trajectory self init rtol = Some (Inr traj)"
    for traj
  proof -
    from ret simulate_variable_first_step[OF len small, of self]
    have "variable_loop (Simulator_F self) rtol [init, Simulator_F self init]
            (abs_diff (Simulator_F self init) init) = Some (Inr traj)"
      by (auto split: if_splits)
    from variable_loop_extends[OF this]
    obtain ys where "traj = [init, Simulator_F self init] @ ys" by blast
    then show ?thesis by simp
  qed
  have call: "Simulator_simulate self (Some rtol) None = simulate_variable_trajectory self init rtol"
    if "stored_initial_condition self = Some init"
    using that by (simp add: Simulator_simulate_def get_initial_condition_def)
  from call big ret simulate_variable_first_step[OF len, of rtol self]
  show "(stored_initial_condition self = Some init \<longrightarrow>
        Simulator_simulate self (Some rtol) None = simulate_variable_trajectory self init rtol) \<and>
     (1 \<le> rtol \<longrightarrow> simulate_variable_trajectory self init rtol = Some (Inr [init])) \<and>
     (rtol < 1 \<longrightarrow>
        simulate_variable_trajectory self init rtol =
          (if length (Simulator_F self init) = 8
           then variable_loop (Simulator_F self) rtol [init, Simulator_F self init]
                  (abs_diff (Simulator_F self init) init)
           else Some (Inl ValueError)) \<and>
        (\<forall>traj. simulate_variable_trajectory self init rtol = Some (Inr traj) \<longrightarrow>
           2 \<le> length traj \<and> (\<exists>rest. traj = init # Simulator_F self init # rest)))"
    by blast
qed

theorem variable_trajectory_rtol_threshold_witness:
  "length corner_state = 8 \<and>
   simulate_variable_trajectory still_simulator corner_state 1 = Some (Inr [corner_state]) \<and>
   simulate_variable_trajectory still_simulator corner_state (1 / 2) =
     Some (Inr [corner_state, corner_state])"
proof -
  have len: "length corner_state = 8" by (simp add: corner_state_def)
  have F: "Simulator_F still_simulator corner_state = corner_state"
    by (simp add: still_F corner_state_def)
  have stop: "\<not> any_greater (abs_diff corner_state corner_state) (1 / 2)"
    by (simp add: any_greater_def abs_diff_def corner_state_def)
  from variable_trajectory_rtol_threshold[where init = corner_state and rtol = 1 and self = still_simulator] len
  have one: "simulate_variable_trajectory still_simulator corner_state 1 = Some (Inr [corner_state])"
    by simp
  from variable_trajectory_rtol_threshold[where init = corner_state and rtol = "1 / 2" and self = still_simulator] len
  have "simulate_variable_trajectory still_simulator corner_state (1 / 2) =
        variable_loop (Simulator_F still_simulator) (1 / 2) [corner_state, corner_state]
          (abs_diff corner_state corner_state)"
    by (simp add: F)
  with variable_loop_stop[OF stop] one len show ?thesis by simp
qed

text \<open>
  Claim C7.  For every initial state of 8 shares, every \<open>T \<ge> 1\<close> and every
  motion map that returns 8 shares, the fixed-length simulation (the simulator's
  and the model's) returns a trajectory of exactly \<open>T\<close> states whose state 0 is
  the initial condition and whose state \<open>t\<close> is the motion map applied to state
  \<open>t - 1\<close>, for \<open>t\<close> from 1 to \<open>T - 1\<close>; no convergence test takes part.
\<close>

theorem fixed_trajectory_states:
  "1 \<le> T \<and> length init = 8 \<and>
   (\<forall>x. length x = 8 \<longrightarrow> length (Simulator_F self x) = 8 \<and> length (Model_F ws m x) = 8) \<longrightarrow>
   (\<exists>traj. simulate_fixed_trajectory self init T = Inr traj \<and>
      length traj = nat T \<and> traj ! 0 = init \<and>
      (\<forall>t. 1 \<le> t \<and> t < nat T \<longrightarrow> traj ! t = Simulator_F self (traj ! (t - 1)))) \<and>
   (\<exists>traj. Model_simulate ws m init T = Inr traj \<and>
      length traj = nat T \<and> traj ! 0 = init \<and>
      (\<forall>t. 1 \<le> t \<and> t < nat T \<longrightarrow> traj ! t = Model_F ws m (traj ! (t - 1))))"
proof (intro impI)
  assume "1 \<le> T \<and> length init = 8 \<and>
   (\<forall>x. length x = 8 \<longrightarrow> length (Simulator_F self x) = 8 \<and> length (Model_F ws m x) = 8)"
  then have T: "1 \<le> T" and l0: "length init = 8"
    and ls: "\<forall>x. length x = 8 \<longrightarrow> length (Simulator_F self x) = 8"
    and lm: "\<forall>x. length x = 8 \<longrightarrow> length (Model_F ws m x) = 8" by auto
  from T have n: "1 \<le> nat T" by simp
  have shape: "length tr = nat T \<and> tr ! 0 = init \<and>
      (\<forall>t. 1 \<le> t \<and> t < nat T \<longrightarrow> tr ! t = step (tr ! (t - 1)))"
    if "tr = map (\<lambda>t. iterate step t init) [0..<nat T]" for tr and step :: "vec \<Rightarrow> vec"
  proof (intro conjI allI impI)
    show "length tr = nat T" using that by simp
    from n have "0 < nat T" by simp
    then have "[0..<nat T] ! 0 = 0" by (simp only: nth_upt add_0)
    with that n show "tr ! 0 = init" by simp
    fix t assume "1 \<le> t \<and> t < nat T"
    then show "tr ! t = step (tr ! (t - 1))" using that by (cases t) simp_all
  qed
  have "\<forall>t. length (iterate (Simulator_F self) t init) = 8"
    using iterate_length[OF ls l0] by simp
  from fixed_trajectory_closed_form[OF this n] T
  have s: "simulate_fixed_trajectory self init T =
           Inr (map (\<lambda>t. iterate (Simulator_F self) t init) [0..<nat T])"
    by (simp add: simulate_fixed_trajectory_def)
  have "\<forall>t. length (iterate (Model_F ws m) t init) = 8"
    using iterate_length[OF lm l0] by simp
  from fixed_trajectory_closed_form[OF this n] T
  have mo: "Model_simulate ws m init T =
           Inr (map (\<lambda>t. iterate (Model_F ws m) t init) [0..<nat T])"
    by (simp add: Model_simulate_def)
  from s mo shape[OF refl, of "Simulator_F self"] shape[OF refl, of "Model_F ws m"]
  show "(\<exists>traj. simulate_fixed_trajectory self init T = Inr traj \<and>
      length traj = nat T \<and> traj ! 0 = init \<and>
      (\<forall>t. 1 \<le> t \<and> t < nat T \<longrightarrow> traj ! t = Simulator_F self (traj ! (t - 1)))) \<and>
   (\<exists>traj. Model_simulate ws m init T = Inr traj \<and>
      length traj = nat T \<and> traj ! 0 = init \<and>
      (\<forall>t. 1 \<le> t \<and> t < nat T \<longrightarrow> traj ! t = Model_F ws m (traj ! (t - 1))))"
    by simp
qed

theorem fixed_trajectory_states_witness:
  "(1::int) \<le> 3 \<and> length corner_state = 8 \<and>
   simulate_fixed_trajectory still_simulator corner_state 3 =
     Inr [corner_state, corner_state, corner_state] \<and>
   Model_simulate halving_symbolics plain_model corner_state 3 =
     Inr [corner_state, [1 / 2, 0, 0, 0, 1 / 2, 0, 0, 0], [1 / 4, 0, 0, 0, 1 / 4, 0, 0, 0]]"
proof -
  have len: "length corner_state = 8" by (simp add: corner_state_def)
  have pres: "\<forall>x. length x = 8 \<longrightarrow>
      length (Simulator_F still_simulator x) = 8 \<and> length (Model_F halving_symbolics plain_model x) = 8"
    by (simp add: still_F halving_F)
  from fixed_trajectory_states[where T = 3 and init = corner_state and self = still_simulator
      and ws = halving_symbolics and m = plain_model] len pres
  obtain tr1 tr2 where
    r1: "simulate_fixed_trajectory still_simulator corner_state 3 = Inr tr1"
    and l1: "length tr1 = 3" and z1: "tr1 ! 0 = corner_state"
    and s1: "\<forall>t. 1 \<le> t \<and> t < 3 \<longrightarrow> tr1 ! t = Simulator_F still_simulator (tr1 ! (t - 1))"
    and r2: "Model_simulate halving_symbolics plain_model corner_state 3 = Inr tr2"
    and l2: "length tr2 = 3" and z2: "tr2 ! 0 = corner_state"
    and s2: "\<forall>t. 1 \<le> t \<and> t < 3 \<longrightarrow> tr2 ! t = Model_F halving_symbolics plain_model (tr2 ! (t - 1))"
    by auto
  from s1[rule_format, of 1] z1 have a1: "tr1 ! 1 = corner_state"
    by (simp add: still_F corner_state_def)
  from s1[rule_format, of 2] a1 have a2: "tr1 ! 2 = corner_state"
    by (simp add: still_F corner_state_def)
  from s2[rule_format, of 1] z2 have b1: "tr2 ! 1 = [1 / 2, 0, 0, 0, 1 / 2, 0, 0, 0]"
    by (simp add: halving_F corner_state_def)
  from s2[rule_format, of 2] b1 have b2: "tr2 ! 2 = [1 / 4, 0, 0, 0, 1 / 4, 0, 0, 0]"
    by (simp add: halving_F)
  from three_states[OF l1] z1 a1 a2 have "tr1 = [corner_state, corner_state, corner_state]" by simp
  moreover from three_states[OF l2] z2 b1 b2
  have "tr2 = [corner_state, [1 / 2, 0, 0, 0, 1 / 2, 0, 0, 0], [1 / 4, 0, 0, 0, 1 / 4, 0, 0, 0]]" by simp
  ultimately show ?thesis using r1 r2 len by simp
qed

text \<open>
  Claim C8 says that for \<open>m0 = 0.3\<close>, \<open>c = 1.0\<close>, \<open>PiAA = 5.0\<close>, \<open>Piaa = 3.0\<close> the
  constructed state equals \<open>[0.3, 0, 0, 0.7, 1.5, 0, 0, 2.1]\<close>.  In the float64
  arithmetic of the source the last component, \<open>(1.0 * 3.0) * (1 - 0.3)\<close>, is
  \<open>1182194902184755 / 2\<^sup>4\<^sup>9\<close> (printed \<open>2.0999999999999996\<close>), which is not the
  float64 that \<open>2.1\<close> denotes.
\<close>

theorem isolated_initial_condition_not_exact:
  "set_initial_condition still_simulator (to_float64 (3 / 10)) =
     Inr (still_simulator\<lparr>stored_initial_condition :=
            Some [to_float64 (3 / 10), 0, 0, to_float64 (7 / 10), 3 / 2, 0, 0,
                  1182194902184755 / 2 ^ 49]\<rparr>) \<and>
   (1182194902184755 / 2 ^ 49 :: real) \<noteq> to_float64 (21 / 10)"
proof -
  have "getitem (fam_params (sim_family still_simulator)) ''c'' = Inr 1"
    and "getitem (fam_params (sim_family still_simulator)) ''PiAA'' = Inr 5"
    and "getitem (fam_params (sim_family still_simulator)) ''Piaa'' = Inr 3"
    by (simp_all add: getitem_def still_simulator_def still_family_def)
  then have "set_initial_condition still_simulator (to_float64 (3 / 10)) =
     Inr (still_simulator\<lparr>stored_initial_condition :=
            Some [to_float64 (3 / 10), 0, 0, to_float64 (7 / 10), 3 / 2, 0, 0,
                  1182194902184755 / 2 ^ 49]\<rparr>)"
    by (simp add: set_initial_condition_def Let_def one_minus_0_3 five_times_0_3 three_times_0_7)
  moreover have "(1182194902184755 / 2 ^ 49 :: real) \<noteq> to_float64 (21 / 10)"
    unfolding float_2_1 by simp
  ultimately show ?thesis by simp
qed

text \<open>
  Claim C8, as the code has it.  The isolated-subpopulations initial condition is
  a function of \<open>m0\<close> and the parameters \<open>c\<close>, \<open>PiAA\<close>, \<open>Piaa\<close> alone: where no
  operation leaves the finite float64 range, the stored state is
  \<open>[m0, 0, 0, 1 - m0, (c * PiAA) * m0, 0, 0, (c * Piaa) * (1 - m0)]\<close> with every
  subtraction and product rounded to float64.  For \<open>m0 = 0.3\<close>, \<open>c = 1.0\<close>,
  \<open>PiAA = 5.0\<close>, \<open>Piaa = 3.0\<close> it is \<open>[0.3, 0, 0, 0.7, 1.5, 0, 0, w]\<close> where \<open>w\<close>
  is the float64 next below \<open>2.1\<close>, that is \<open>2.1 - 2\<^sup>-\<^sup>5\<^sup>1\<close>.
\<close>

theorem isolated_initial_condition:
  "fam_params (sim_family self) ''c'' = Some c \<and>
   fam_params (sim_family self) ''PiAA'' = Some PiAA \<and>
   fam_params (sim_family self) ''Piaa'' = Some Piaa \<and>
   finite64 (1 - m0) \<and> finite64 (c * PiAA) \<and> finite64 (float_mul c PiAA * m0) \<and>
   finite64 (c * Piaa) \<and> finite64 (float_mul c Piaa * float_sub 1 m0) \<longrightarrow>
   (\<exists>self'. set_initial_condition self m0 = Inr self' \<and>
      sim_family self' = sim_family self \<and>
      get_initial_condition self' =
        Inr [m0, 0, 0, float_sub 1 m0, float_mul (float_mul c PiAA) m0, 0, 0,
             float_mul (float_mul c Piaa) (float_sub 1 m0)] \<and>
      (m0 = to_float64 (3 / 10) \<and> c = 1 \<and> PiAA = 5 \<and> Piaa = 3 \<longrightarrow>
         get_initial_condition self' =
           Inr [to_float64 (3 / 10), 0, 0, to_float64 (7 / 10), 3 / 2, 0, 0,
                to_float64 (21 / 10) - 1 / 2 ^ 51]))"
proof (rule impI)
  assume "fam_params (sim_family self) ''c'' = Some c \<and>
   fam_params (sim_family self) ''PiAA'' = Some PiAA \<and>
   fam_params (sim_family self) ''Piaa'' = Some Piaa \<and>
   finite64 (1 - m0) \<and> finite64 (c * PiAA) \<and> finite64 (float_mul c PiAA * m0) \<and>
   finite64 (c * Piaa) \<and> finite64 (float_mul c Piaa * float_sub 1 m0)"
  then have keys: "getitem (fam_params (sim_family self)) ''c'' = Inr c"
    "getitem (fam_params (sim_family self)) ''PiAA'' = Inr PiAA"
    "getitem (fam_params (sim_family self)) ''Piaa'' = Inr Piaa"
    by (simp_all add: getitem_def)
  let ?state = "[m0, 0, 0, float_sub 1 m0, float_mul (float_mul c PiAA) m0, 0, 0,
             float_mul (float_mul c Piaa) (float_sub 1 m0)]"
  let ?self' = "self\<lparr>stored_initial_condition := Some ?state\<rparr>"
  from keys have set: "set_initial_condition self m0 = Inr ?self'"
    by (simp add: set_initial_condition_def Let_def)
  have get: "get_initial_condition ?self' = Inr ?state"
    by (simp add: get_initial_condition_def)
  have example: "?state = [to_float64 (3 / 10), 0, 0, to_float64 (7 / 10), 3 / 2, 0, 0,
                to_float64 (21 / 10) - 1 / 2 ^ 51]"
    if "m0 = to_float64 (3 / 10) \<and> c = 1 \<and> PiAA = 5 \<and> Piaa = 3"
    using that
    by (simp add: one_minus_0_3 five_times_0_3 three_times_0_7_below)
  have fam: "sim_family ?self' = sim_family self" by simp
  have special: "get_initial_condition ?self' =
           Inr [to_float64 (3 / 10), 0, 0, to_float64 (7 / 10), 3 / 2, 0, 0,
                to_float64 (21 / 10) - 1 / 2 ^ 51]"
    if h: "m0 = to_float64 (3 / 10) \<and> c = 1 \<and> PiAA = 5 \<and> Piaa = 3"
  proof -
    have "(Inr ?state :: error + vec) =
           Inr [to_float64 (3 / 10), 0, 0, to_float64 (7 / 10), 3 / 2, 0, 0,
                to_float64 (21 / 10) - 1 / 2 ^ 51]"
      using example[OF h] by (rule arg_cong)
    with get show ?thesis by (rule trans)
  qed
  from set fam get special show
    "\<exists>self'. set_initial_condition self m0 = Inr self' \<and>
      sim_family self' = sim_family self \<and>
      get_initial_condition self' =
        Inr [m0, 0, 0, float_sub 1 m0, float_mul (float_mul c PiAA) m0, 0, 0,
             float_mul (float_mul c Piaa) (float_sub 1 m0)] \<and>
      (m0 = to_float64 (3 / 10) \<and> c = 1 \<and> PiAA = 5 \<and> Piaa = 3 \<longrightarrow>
         get_initial_condition self' =
           Inr [to_float64 (3 / 10), 0, 0, to_float64 (7 / 10), 3 / 2, 0, 0,
                to_float64 (21 / 10) - 1 / 2 ^ 51])"
    by (intro exI[of _ ?self']) blast
qed

theorem isolated_initial_condition_witness:
  "fam_params (sim_family still_simulator) ''c'' = Some 1 \<and>
   fam_params (sim_family still_simulator) ''PiAA'' = Some 5 \<and>
   fam_params (sim_family still_simulator) ''Piaa'' = Some 3 \<and>
   finite64 (1 - to_float64 (3 / 10)) \<and> finite64 (1 * 5) \<and>
   finite64 (float_mul 1 5 * to_float64 (3 / 10)) \<and> finite64 (1 * 3) \<and>
   finite64 (float_mul 1 3 * float_sub 1 (to_float64 (3 / 10))) \<and>
   (\<exists>self'. set_initial_condition still_simulator (to_float64 (3 / 10)) = Inr self' \<and>
      get_initial_condition self' =
        Inr [to_float64 (3 / 10), 0, 0, to_float64 (7 / 10), 3 / 2, 0, 0,
             to_float64 (21 / 10) - 1 / 2 ^ 51])"
proof -
  have p: "fam_params (sim_family still_simulator) ''c'' = Some 1 \<and>
   fam_params (sim_family still_simulator) ''PiAA'' = Some 5 \<and>
   fam_params (sim_family still_simulator) ''Piaa'' = Some 3"
    by (simp add: still_simulator_def still_family_def)
  have f: "finite64 (1 - to_float64 (3 / 10)) \<and> finite64 (1 * 5) \<and>
   finite64 (float_mul 1 5 * to_float64 (3 / 10)) \<and> finite64 (1 * 3) \<and>
   finite64 (float_mul 1 3 * float_sub 1 (to_float64 (3 / 10)))"
    unfolding one_minus_0_3 unfolding float_0_3 float_0_7
    by (simp add: finite64_def float_mul_def float64_eval)
  from isolated_initial_condition[where self = still_simulator and c = 1 and PiAA = 5
      and Piaa = 3 and ?m0.0 = "to_float64 (3 / 10)"] p f
  have "\<exists>self'. set_initial_condition still_simulator (to_float64 (3 / 10)) = Inr self' \<and>
      get_initial_condition self' =
        Inr [to_float64 (3 / 10), 0, 0, to_float64 (7 / 10), 3 / 2, 0, 0,
             to_float64 (21 / 10) - 1 / 2 ^ 51]"
    by blast
  with p f show ?thesis by blast
qed




text \<open>
  Claim C9.  Let the motion map send every state of 8 shares whose two halves
  (components 0 to 3 and components 4 to 7) each sum to one within a tolerance
  to a state of the same kind, and let the initial state be of that kind.  Then
  every state of every trajectory the simulator returns, fixed-length or
  variable-length, has both half-sums equal to one within that tolerance.
\<close>

theorem trajectories_keep_half_sums:
  "length init = 8 \<and> half_sums_to_one tol init \<and>
   (\<forall>x. length x = 8 \<and> half_sums_to_one tol x \<longrightarrow>
        length (Simulator_F self x) = 8 \<and> half_sums_to_one tol (Simulator_F self x)) \<longrightarrow>
   (\<forall>traj. simulate_fixed_trajectory self init T = Inr traj \<longrightarrow>
        (\<forall>s\<in>set traj. half_sums_to_one tol s)) \<and>
   (\<forall>traj. simulate_variable_trajectory self init rtol = Some (Inr traj) \<longrightarrow>
        (\<forall>s\<in>set traj. half_sums_to_one tol s))"
proof (rule impI)
  let ?F = "Simulator_F self"
  let ?P = "\<lambda>x. length x = 8 \<and> half_sums_to_one tol x"
  assume "length init = 8 \<and> half_sums_to_one tol init \<and>
   (\<forall>x. length x = 8 \<and> half_sums_to_one tol x \<longrightarrow>
        length (Simulator_F self x) = 8 \<and> half_sums_to_one tol (Simulator_F self x))"
  then have len: "length init = 8" and P0: "?P init" and pres: "\<forall>x. ?P x \<longrightarrow> ?P (?F x)"
    by auto
  have orbit: "?P (iterate ?F n init)" for n
    using P0 pres by (induction n) simp_all
  have fixed: "\<forall>s\<in>set traj. half_sums_to_one tol s"
    if ret: "simulate_fixed_trajectory self init T = Inr traj" for traj
  proof -
    from ret have T: "1 \<le> T"
      by (cases "T < 0"; cases "T = 0") (simp_all add: simulate_fixed_trajectory_def)
    then have n: "1 \<le> nat T" by simp
    have "\<forall>t. length (iterate ?F t init) = 8" using orbit by simp
    from fixed_trajectory_closed_form[OF this n] T ret
    have "traj = map (\<lambda>t. iterate ?F t init) [0..<nat T]"
      by (simp add: simulate_fixed_trajectory_def)
    with orbit show ?thesis by simp
  qed
  have variable: "\<forall>s\<in>set traj. half_sums_to_one tol s"
    if ret: "simulate_variable_trajectory self init rtol = Some (Inr traj)" for traj
  proof -
    from ret len have "variable_loop ?F rtol [init] (replicate 8 1) = Some (Inr traj)"
      by (simp add: simulate_variable_unfold)
    from variable_loop_all_states[where P = ?P, OF this] P0 pres
    show ?thesis by simp
  qed
  from fixed variable show
   "(\<forall>traj. simulate_fixed_trajectory self init T = Inr traj \<longrightarrow>
        (\<forall>s\<in>set traj. half_sums_to_one tol s)) \<and>
   (\<forall>traj. simulate_variable_trajectory self init rtol = Some (Inr traj) \<longrightarrow>
        (\<forall>s\<in>set traj. half_sums_to_one tol s))"
    by blast
qed

theorem trajectories_keep_half_sums_witness:
  "length corner_state = 8 \<and> half_sums_to_one 0 corner_state \<and>
   simulate_fixed_trajectory swap_simulator corner_state 3 =
     Inr [corner_state, [0, 0, 0, 1, 0, 0, 0, 1], corner_state] \<and>
   half_sums_to_one 0 [0, 0, 0, 1, 0, 0, 0, 1] \<and>
   simulate_variable_trajectory still_simulator corner_state (1 / 2) =
     Some (Inr [corner_state, corner_state])"
proof -
  have len: "length corner_state = 8" by (simp add: corner_state_def)
  have h0: "half_sums_to_one 0 corner_state"
    by (simp add: half_sums_to_one_def corner_state_def)
  have stop: "\<not> any_greater (abs_diff corner_state corner_state) (1 / 2)"
    by (simp add: any_greater_def abs_diff_def corner_state_def)
  have "simulate_variable_trajectory still_simulator corner_state (1 / 2) =
        variable_loop (Simulator_F still_simulator) (1 / 2) [corner_state, corner_state]
          (abs_diff corner_state corner_state)"
    using simulate_variable_first_step[OF len, of "1 / 2" still_simulator]
    by (simp add: still_F corner_state_def)
  with variable_loop_stop[OF stop]
  have v: "simulate_variable_trajectory still_simulator corner_state (1 / 2) =
     Some (Inr [corner_state, corner_state])" by simp
  from trajectories_keep_half_sums[where init = corner_state and tol = 0 and self = swap_simulator
      and T = 3, rule_format, OF conjI[OF len conjI[OF h0 allI[OF swap_keeps_half_sums]]]]
    swap_three_steps
  have a: "half_sums_to_one 0 [0, 0, 0, 1, 0, 0, 0, 1]" by simp
  from len h0 swap_three_steps a v show ?thesis by blast
qed

text \<open>
  Claim C1.  For every state \<open>X\<close> and bound parameter set, with the residual an
  8-by-1 column and its Jacobian an 8-by-8 array (the shapes the compiled
  symbolic expressions have), the gradient handed to the minimizer is the
  residual transposed times the residual Jacobian: its component \<open>j\<close> is the sum
  over \<open>i\<close> of \<open>residual(X)\<^sub>i * residual_jacobian(X)\<^sub>i\<^sub>j\<close>.
\<close>

theorem gradient_is_residual_times_jacobian:
  "Model_residual ws self X = Inr r \<and> has_shape r 8 1 \<and>
   has_shape (Model_residual_jacobian ws self X) 8 8 \<longrightarrow>
   Model_jacobian ws self X =
     Inr (map (\<lambda>j. \<Sum>i<8. r ! i ! 0 * Model_residual_jacobian ws self X ! i ! j) [0..<8])"
proof (rule impI)
  assume "Model_residual ws self X = Inr r \<and> has_shape r 8 1 \<and>
   has_shape (Model_residual_jacobian ws self X) 8 8"
  then have res: "Model_residual ws self X = Inr r" and r: "has_shape r 8 1"
    and J: "has_shape (Model_residual_jacobian ws self X) 8 8" by auto
  from res np_multiply_column[OF r J] show
    "Model_jacobian ws self X =
     Inr (map (\<lambda>j. \<Sum>i<8. r ! i ! 0 * Model_residual_jacobian ws self X ! i ! j) [0..<8])"
    by (simp add: Model_jacobian_def np_sum_axis0_table)
qed

theorem gradient_is_residual_times_jacobian_witness:
  "Model_residual halving_symbolics plain_model corner_state =
     Inr [[- 1 / 2], [0], [0], [0], [- 1 / 2], [0], [0], [0]] \<and>
   has_shape [[- 1 / 2], [0], [0], [0], [- 1 / 2], [0], [0], [0 :: real]] 8 1 \<and>
   has_shape (Model_residual_jacobian halving_symbolics plain_model corner_state) 8 8 \<and>
   Model_jacobian halving_symbolics plain_model corner_state =
     Inr [1 / 4, 0, 0, 0, 1 / 4, 0, 0, 0]"
proof -
  let ?r = "[[- 1 / 2], [0], [0], [0], [- 1 / 2], [0], [0], [0 :: real]]"
  have r: "has_shape ?r 8 1" by (simp add: has_shape_def)
  have J: "has_shape (Model_residual_jacobian halving_symbolics plain_model corner_state) 8 8"
    by (simp add: halving_residual_jacobian has_shape_def)
  from gradient_is_residual_times_jacobian[where ws = halving_symbolics and self = plain_model
      and X = corner_state and r = ?r] halving_residual_corner r J
  have "Model_jacobian halving_symbolics plain_model corner_state =
     Inr (map (\<lambda>j. \<Sum>i<8. ?r ! i ! 0 *
            Model_residual_jacobian halving_symbolics plain_model corner_state ! i ! j) [0..<8])"
    by blast
  also have "\<dots> = Inr [1 / 4, 0, 0, 0, 1 / 4, 0, 0, 0]"
    by (simp add: halving_residual_jacobian upt_8 sum_below_8)
  finally show ?thesis using halving_residual_corner r J by simp
qed



text \<open>
  Claim C4 says that asking for the eigenvalues or the verdict of an equilibrium
  result whose success flag is false fails with \<open>PreconditionError\<close>.  The
  getters never read the flag.  With a minimizer that gives up at the initial
  guess \<open>[1, 0, 0, 0, 1, 0, 0, 0]\<close> and the motion map \<open>X / 2\<close>, the result has
  \<open>success = False\<close>, and the query returns the eigenvalues and the verdict
  \<open>True\<close>.
\<close>

theorem stability_of_failed_result:
  "get_steady_state (stand_in_scipy False) halving_symbolics plain_model =
     Inr \<lparr>res_x = corner_state, res_success = False, res_fun = 1 / 4\<rparr> \<and>
   get_eigenvalues (stand_in_scipy False) halving_symbolics plain_model =
     Inr (replicate 8 (complex_of_real (1 / 2))) \<and>
   get_isstable (stand_in_scipy False) halving_symbolics plain_model = Inr True"
proof -
  have ss: "get_steady_state (stand_in_scipy False) halving_symbolics plain_model =
     Inr \<lparr>res_x = corner_state, res_success = False, res_fun = 1 / 4\<rparr>"
    using stand_in_steady_state[where self = plain_model and ws = halving_symbolics and v = "1 / 4"]
      halving_objective_corner
    by (simp add: plain_model_def)
  then show ?thesis
    by (simp add: get_isstable_def get_eigenvalues_def Model_F_jacobian_def stand_in_eig_halving
        list_all_iff)
qed

text \<open>
  Claim C4, as the code has it.  For every equilibrium result whose success flag
  is false, the stability query returns the eigenvalues of the Jacobian of the
  motion map at the result's \<open>x\<close> and the verdict computed from them, as it does
  for a converged result; it does not fail with \<open>PreconditionError\<close>.
\<close>

theorem stability_ignores_success_flag:
  "get_steady_state lib ws self = Inr result \<and> \<not> res_success result \<longrightarrow>
   get_eigenvalues lib ws self = Inr (scipy_eig lib (Model_F_jacobian ws self (res_x result))) \<and>
   get_isstable lib ws self =
     Inr (list_all (\<lambda>z. cmod z < 1) (scipy_eig lib (Model_F_jacobian ws self (res_x result)))) \<and>
   get_eigenvalues lib ws self \<noteq> Inl PreconditionError \<and>
   get_isstable lib ws self \<noteq> Inl PreconditionError"
  by (simp add: get_isstable_def get_eigenvalues_def)

theorem stability_ignores_success_flag_witness:
  "get_steady_state (stand_in_scipy False) halving_symbolics plain_model =
     Inr \<lparr>res_x = corner_state, res_success = False, res_fun = 1 / 4\<rparr> \<and>
   \<not> res_success \<lparr>res_x = corner_state, res_success = False, res_fun = 1 / 4\<rparr> \<and>
   get_isstable (stand_in_scipy False) halving_symbolics plain_model = Inr True \<and>
   get_isstable (stand_in_scipy False) halving_symbolics plain_model \<noteq> Inl PreconditionError"
proof -
  have ss: "get_steady_state (stand_in_scipy False) halving_symbolics plain_model =
     Inr \<lparr>res_x = corner_state, res_success = False, res_fun = 1 / 4\<rparr>"
    using stand_in_steady_state[where self = plain_model and ws = halving_symbolics and v = "1 / 4"]
      halving_objective_corner
    by (simp add: plain_model_def)
  have flag: "\<not> res_success \<lparr>res_x = corner_state, res_success = False, res_fun = 1 / 4\<rparr>"
    by simp
  from stability_ignores_success_flag[where lib = "stand_in_scipy False" and ws = halving_symbolics
      and self = plain_model, rule_format, OF conjI[OF ss flag]]
  have "get_isstable (stand_in_scipy False) halving_symbolics plain_model = Inr True"
    by (simp add: Model_F_jacobian_def stand_in_eig_halving list_all_iff)
  with ss show ?thesis by simp
qed

text \<open>
  Claim C5 says that evaluating the residual or the objective at a state with a
  component outside \<open>[0, 1]\<close> by more than a slack fails with \<open>DomainError\<close>.
  The source tests nothing.  At \<open>X = [2, 0, 0, 0, 0, 0, 0, 0]\<close>, whose first
  component exceeds 1 by more than the slack 0.5, with the residual \<open>-X / 2\<close>,
  both return a value.
\<close>

theorem residual_outside_domain_returns:
  "outside_domain (1 / 2) far_state \<and>
   Model_residual halving_symbolics plain_model far_state =
     Inr [[- 1], [0], [0], [0], [0], [0], [0], [0]] \<and>
   Model_objective halving_symbolics plain_model far_state = Inr (1 / 2)"
  by (simp add: outside_domain_def far_state_def Model_objective_def Model_residual_def
      halving_symbolics_def np_sum_def np_square_def)

text \<open>
  Claim C5, as the code has it.  For every state \<open>X\<close>, inside the domain or
  outside it, the residual is what the symbolic system returns at \<open>X\<close> and the
  objective is half the sum of its squares; neither fails with \<open>DomainError\<close>.
\<close>

theorem residual_has_no_domain_check:
  "Model_residual ws self X = Inr (residual_sym ws X (model_params self)) \<and>
   Model_objective ws self X =
     Inr (1 / 2 * np_sum (np_square (residual_sym ws X (model_params self)))) \<and>
   Model_residual ws self X \<noteq> Inl DomainError \<and>
   Model_objective ws self X \<noteq> Inl DomainError"
  by (simp add: Model_residual_def Model_objective_def)

text \<open>
  Claim C6.  The equilibrium solver is to return a result object whose success
  field reports convergence, for every initial guess and parameter set.  The
  minimizing solver does (\<open>steady_state_is_minimizer_result\<close>).  The root
  finder does not: \<open>Solver.residual\<close> reads \<open>self._numeric_system\<close>, an
  attribute that a solver object never gets, so the first evaluation of the
  residual raises \<open>AttributeError\<close>.  For every library whose root finder
  raises when the residual raises at \<open>x0\<close>, every family, initial guess, solver
  name and keyword arguments, \<open>RootFinder.solve\<close> on a freshly constructed
  solver ends in an exception and returns no result.
\<close>

theorem rootfinder_solve_never_returns:
  "(\<forall>resid x0 method jac kw e. resid x0 = Inl e \<longrightarrow>
        (\<exists>e'. scipy_root lib resid x0 method jac kw = Inl e')) \<longrightarrow>
   (\<exists>e. RootFinder_solve lib (set_initial_guess (Solver_init fam) guess) method with_jacobian kwargs
          = Inl e)"
proof (rule impI)
  assume lib: "\<forall>resid x0 method jac kw e. resid x0 = Inl e \<longrightarrow>
        (\<exists>e'. scipy_root lib resid x0 method jac kw = Inl e')"
  let ?self = "set_initial_guess (Solver_init fam) guess"
  let ?jac = "if with_jacobian then JacCallable (Solver_jacobian ?self) else JacFalse"
  have guess: "get_initial_guess ?self = Inr guess"
    by (simp add: get_initial_guess_def set_initial_guess_def)
  from lib solver_residual_raises[of fam guess guess]
  obtain e' where "scipy_root lib (Solver_residual ?self) guess method ?jac kwargs = Inl e'"
    by blast
  with guess show "\<exists>e. RootFinder_solve lib ?self method with_jacobian kwargs = Inl e"
    by (simp add: RootFinder_solve_def)
qed

theorem rootfinder_solve_never_returns_witness:
  "RootFinder_solve (stand_in_scipy True) (set_initial_guess (Solver_init still_family) corner_state)
     ''hybr'' False Map.empty = Inl AttributeError"
proof -
  have lib: "\<forall>resid x0 method jac kw e. resid x0 = Inl e \<longrightarrow>
        (\<exists>e'. scipy_root (stand_in_scipy True) resid x0 method jac kw = Inl e')"
    by (simp add: stand_in_scipy_def)
  from rootfinder_solve_never_returns[of "stand_in_scipy True" still_family corner_state
      "''hybr''" False Map.empty, THEN mp, OF lib]
  obtain e where "RootFinder_solve (stand_in_scipy True)
      (set_initial_guess (Solver_init still_family) corner_state) ''hybr'' False Map.empty = Inl e"
    by blast
  moreover have "get_initial_guess (set_initial_guess (Solver_init still_family) corner_state) =
      Inr corner_state"
    by (simp add: get_initial_guess_def set_initial_guess_def)
  then have "RootFinder_solve (stand_in_scipy True)
      (set_initial_guess (Solver_init still_family) corner_state) ''hybr'' False Map.empty
      = Inl AttributeError \<or> (\<exists>r. RootFinder_solve (stand_in_scipy True)
      (set_initial_guess (Solver_init still_family) corner_state) ''hybr'' False Map.empty = Inr r)"
    by (simp add: RootFinder_solve_def stand_in_scipy_def solver_residual_raises)
  ultimately show ?thesis by auto
qed

end
